theory Spec2Isabelle
  imports Complex_Main
begin

section \<open>Numbers, strings and errors\<close>

text \<open>
  The program is a single script, \<^verbatim>\<open>app.py\<close>. Its quantities are Python floats and
  ints. Floats are modelled as \<^typ>\<open>real\<close>: every formula keeps the operations and the
  order of the source, and rounding of the binary representation is left out. Python ints
  are \<^typ>\<open>int\<close> where the source computes on ints (dates, the water slider), and
  \<^typ>\<open>real\<close> where an int constant only ever meets floats (Python promotes it).

  Strings are byte lists in UTF-8: the Korean labels of the source are written out as
  their bytes, the ASCII ones as literals.
\<close>

datatype py_error = KeyError | ZeroDivisionError

subsection \<open>Constants (lines 9 to 22)\<close>

definition DEFAULT_PER_CAPITA_WATER_USAGE :: int where
  "DEFAULT_PER_CAPITA_WATER_USAGE = 305"

definition ENERGY_PER_CUBIC_METER_WATER_SUPPLY :: real where
  "ENERGY_PER_CUBIC_METER_WATER_SUPPLY = 0.5"

definition ENERGY_TO_HEAT_1L_WATER :: real where
  "ENERGY_TO_HEAT_1L_WATER = 0.029"

definition CO2_PER_KWH :: real where
  "CO2_PER_KWH = 0.4"

definition CO2_ABSORBED_PER_TREE_PER_YEAR :: real where
  "CO2_ABSORBED_PER_TREE_PER_YEAR = 21"

text \<open>The only contract type of the tariff table, the two-syllable Korean word for
  "low voltage" (code points U+C800 U+C555).\<close>

definition contract_low_voltage :: string where
  "contract_low_voltage = [CHR 0xEC, CHR 0xA0, CHR 0x80, CHR 0xEC, CHR 0x95, CHR 0x95]"

definition BASE_COST_PER_KWH :: "string \<rightharpoonup> real list" where
  "BASE_COST_PER_KWH = [contract_low_voltage \<mapsto> [78.3, 147.3, 215.6]]"

definition TIER_THRESHOLDS :: "real list" where
  "TIER_THRESHOLDS = [200, 400]"

definition VAT_RATE :: real where
  "VAT_RATE = 0.1"

definition ELECTRICITY_FUND_RATE :: real where
  "ELECTRICITY_FUND_RATE = 0.037"

definition CO2_EMISSION_FACTOR_G_PER_KWH :: real where
  "CO2_EMISSION_FACTOR_G_PER_KWH = 409"

section \<open>The monthly bill (lines 25 to 45)\<close>

text \<open>
  \<^verbatim>\<open>calculate_monthly_bill(kwh_usage, contract_type)\<close> returns the tuple
  \<^verbatim>\<open>(total_bill, energy_charge, electricity_fund, vat)\<close>. The lookup of the contract
  type in the tariff table raises \<^verbatim>\<open>KeyError\<close> for an unknown key; there is no other
  check. The indices 0, 1, 2 are those of the source; both lists are constants long
  enough for them. \<^verbatim>\<open>energy_charge\<close> starts at 0 and is increased with \<^verbatim>\<open>+=\<close>.
\<close>

type_synonym bill = "real \<times> real \<times> real \<times> real"

definition calculate_monthly_bill :: "real \<Rightarrow> string \<Rightarrow> py_error + bill" where
  "calculate_monthly_bill kwh_usage contract_type =
     (case BASE_COST_PER_KWH contract_type of
        None \<Rightarrow> Inl KeyError
      | Some tier_costs \<Rightarrow>
          (let tier_thresholds = TIER_THRESHOLDS;
               energy_charge =
                 (if kwh_usage \<le> tier_thresholds ! 0 then
                    0 + kwh_usage * tier_costs ! 0
                  else if kwh_usage \<le> tier_thresholds ! 1 then
                    0 + (tier_thresholds ! 0 * tier_costs ! 0)
                      + ((kwh_usage - tier_thresholds ! 0) * tier_costs ! 1)
                  else
                    0 + (tier_thresholds ! 0 * tier_costs ! 0)
                      + ((tier_thresholds ! 1 - tier_thresholds ! 0) * tier_costs ! 1)
                      + ((kwh_usage - tier_thresholds ! 1) * tier_costs ! 2));
               base_fee = 0;
               electricity_fund = energy_charge * ELECTRICITY_FUND_RATE;
               vat = (energy_charge + electricity_fund) * VAT_RATE;
               total_bill = base_fee + energy_charge + electricity_fund + vat
           in Inr (total_bill, energy_charge, electricity_fund, vat)))"

text \<open>The components of the returned tuple, by position.\<close>

definition bill_total :: "bill \<Rightarrow> real" where
  "bill_total b = fst b"

definition bill_energy_charge :: "bill \<Rightarrow> real" where
  "bill_energy_charge b = fst (snd b)"

definition bill_fund :: "bill \<Rightarrow> real" where
  "bill_fund b = fst (snd (snd b))"

definition bill_vat :: "bill \<Rightarrow> real" where
  "bill_vat b = snd (snd (snd b))"

section \<open>Dates and the month count (lines 47 to 48, 62)\<close>

text \<open>
  A \<^verbatim>\<open>datetime.date\<close> has a year from 1 to 9999, a month from 1 to 12 and a day of
  that month; dates are ordered by year, then month, then day.
\<close>

record date =
  year :: int
  month :: int
  day :: int

definition is_leap :: "int \<Rightarrow> bool" where
  "is_leap y = (y mod 4 = 0 \<and> (y mod 100 \<noteq> 0 \<or> y mod 400 = 0))"

definition days_in_month :: "int \<Rightarrow> int \<Rightarrow> int" where
  "days_in_month y m =
     (if m = 2 then (if is_leap y then 29 else 28)
      else if m = 4 \<or> m = 6 \<or> m = 9 \<or> m = 11 then 30 else 31)"

definition valid_date :: "date \<Rightarrow> bool" where
  "valid_date d =
     (1 \<le> year d \<and> year d \<le> 9999 \<and> 1 \<le> month d \<and> month d \<le> 12 \<and>
      1 \<le> day d \<and> day d \<le> days_in_month (year d) (month d))"

definition date_gt :: "date \<Rightarrow> date \<Rightarrow> bool" where
  "date_gt a b =
     (year a > year b \<or>
      (year a = year b \<and> (month a > month b \<or> (month a = month b \<and> day a > day b))))"

definition date_le :: "date \<Rightarrow> date \<Rightarrow> bool" where
  "date_le a b = (\<not> date_gt a b)"

definition count_months :: "date \<Rightarrow> date \<Rightarrow> int" where
  "count_months start_date end_date =
     (year end_date - year start_date) * 12 + (month end_date - month start_date) + 1"

section \<open>The electricity saving analysis (lines 76 to 91)\<close>

text \<open>
  The body of the button \<^verbatim>\<open>if st.button(...)\<close>, as a function of the two dates and the
  two usages read above it. The division by \<^verbatim>\<open>usage_before\<close> raises
  \<^verbatim>\<open>ZeroDivisionError\<close> at 0.0 (the input widget starts at 1.0), before the bills are
  computed; an error of a bill is passed on. Both bills use the default contract type.
\<close>

record electricity_result =
  num_months :: int
  total_saved_kwh :: real
  saved_percent :: real
  total_saved_won :: real
  co2_before_kg :: real
  co2_after_kg :: real
  total_co2_saved_kg :: real

definition electricity_analysis ::
  "date \<Rightarrow> date \<Rightarrow> real \<Rightarrow> real \<Rightarrow> py_error + electricity_result" where
  "electricity_analysis start_date end_date usage_before usage_after =
     (let n = count_months start_date end_date;
          saved_kwh_per_month = usage_before - usage_after;
          saved_kwh = saved_kwh_per_month * real_of_int n
      in if usage_before = 0 then Inl ZeroDivisionError
         else
           (let percent = (saved_kwh_per_month / usage_before) * 100
            in case calculate_monthly_bill usage_before contract_low_voltage of
                 Inl e \<Rightarrow> Inl e
               | Inr (original_bill, _) \<Rightarrow>
                   (case calculate_monthly_bill usage_after contract_low_voltage of
                      Inl e \<Rightarrow> Inl e
                    | Inr (reduced_bill, _) \<Rightarrow>
                        (let saved_won_per_month = original_bill - reduced_bill;
                             saved_won = saved_won_per_month * real_of_int n;
                             before_kg =
                               (usage_before * CO2_EMISSION_FACTOR_G_PER_KWH * real_of_int n) / 1000;
                             after_kg =
                               (usage_after * CO2_EMISSION_FACTOR_G_PER_KWH * real_of_int n) / 1000
                         in Inr \<lparr>num_months = n,
                                 total_saved_kwh = saved_kwh,
                                 saved_percent = percent,
                                 total_saved_won = saved_won,
                                 co2_before_kg = before_kg,
                                 co2_after_kg = after_kg,
                                 total_co2_saved_kg = before_kg - after_kg\<rparr>))))"

section \<open>The recycling grade (lines 107 to 127)\<close>

definition NATIONAL_RATE :: real where
  "NATIONAL_RATE = 69.8"

text \<open>The four grade labels of \<^verbatim>\<open>get_grade\<close> (Korean for low, moderate, high and
  very high), each with its emoji (a red, yellow, green and blue circle) and colour.\<close>

definition grade_low :: string where
  "grade_low = [CHR 0xEB, CHR 0x82, CHR 0xAE, CHR 0xEC, CHR 0x9D, CHR 0x8C]"

definition grade_moderate :: string where
  "grade_moderate = [CHR 0xEB, CHR 0xB3, CHR 0xB4, CHR 0xED, CHR 0x86, CHR 0xB5]"

definition grade_high :: string where
  "grade_high = [CHR 0xEB, CHR 0x86, CHR 0x92, CHR 0xEC, CHR 0x9D, CHR 0x8C]"

definition grade_very_high :: string where
  "grade_very_high =
     [CHR 0xEB, CHR 0xA7, CHR 0xA4, CHR 0xEC, CHR 0x9A, CHR 0xB0, CHR 0x20,
      CHR 0xEB, CHR 0x86, CHR 0x92, CHR 0xEC, CHR 0x9D, CHR 0x8C]"

definition emoji_red :: string where
  "emoji_red = [CHR 0xF0, CHR 0x9F, CHR 0x94, CHR 0xB4]"

definition emoji_yellow :: string where
  "emoji_yellow = [CHR 0xF0, CHR 0x9F, CHR 0x9F, CHR 0xA1]"

definition emoji_green :: string where
  "emoji_green = [CHR 0xF0, CHR 0x9F, CHR 0x9F, CHR 0xA2]"

definition emoji_blue :: string where
  "emoji_blue = [CHR 0xF0, CHR 0x9F, CHR 0x94, CHR 0xB5]"

definition get_grade :: "real \<Rightarrow> string \<times> string \<times> string" where
  "get_grade rate =
     (if rate < 50 then (grade_low, emoji_red, ''#ff4444'')
      else if rate < 75 then (grade_moderate, emoji_yellow, ''#ffaa00'')
      else if rate < 100 then (grade_high, emoji_green, ''#00aa00'')
      else (grade_very_high, emoji_blue, ''#0066cc''))"

text \<open>
  The block under \<^verbatim>\<open>if waste_amount > 0\<close>: it has no \<^verbatim>\<open>else\<close>, so for an amount
  that is not positive nothing is computed and nothing is raised (\<open>None\<close>).
\<close>

record recycling_result =
  recycling_rate :: real
  relative_rate :: real
  grade :: string
  emoji :: string
  color :: string

definition recycling_evaluation :: "real \<Rightarrow> real \<Rightarrow> recycling_result option" where
  "recycling_evaluation waste_amount recycling_amount =
     (if waste_amount > 0 then
        (let rate = (recycling_amount / waste_amount) * 100;
             relative = (rate / NATIONAL_RATE) * 100
         in case get_grade relative of
              (g, e, c) \<Rightarrow>
                Some \<lparr>recycling_rate = rate, relative_rate = relative,
                      grade = g, emoji = e, color = c\<rparr>)
      else None)"



section \<open>The water saving simulator (lines 152 to 179)\<close>

text \<open>
  The slider gives an int. The two savings are computed for every input; the energy and
  CO2 figures only under \<^verbatim>\<open>if daily_saving > 0\<close>. The \<^verbatim>\<open>else\<close> branch shows a
  message and assigns nothing, so there the variables of the block do not exist
  (\<open>None\<close>).
\<close>

definition daily_saving :: "int \<Rightarrow> int" where
  "daily_saving user_daily_water_usage = DEFAULT_PER_CAPITA_WATER_USAGE - user_daily_water_usage"

definition annual_saving_liters :: "int \<Rightarrow> int" where
  "annual_saving_liters user_daily_water_usage = daily_saving user_daily_water_usage * 365"

record water_result =
  hot_water_saving_liters :: real
  cold_water_supply_saving_cubic_meters :: real
  energy_saved_from_hot_water :: real
  energy_saved_from_cold_supply :: real
  total_energy_saved_kwh :: real
  co2_reduced_kg :: real
  equivalent_trees :: real

definition water_saving :: "int \<Rightarrow> water_result option" where
  "water_saving user_daily_water_usage =
     (if daily_saving user_daily_water_usage > 0 then
        (let hot_liters = real_of_int (annual_saving_liters user_daily_water_usage) * 0.40;
             cold_cubic_meters =
               (real_of_int (annual_saving_liters user_daily_water_usage) * 0.60) / 1000;
             energy_hot = hot_liters * ENERGY_TO_HEAT_1L_WATER;
             energy_cold = cold_cubic_meters * ENERGY_PER_CUBIC_METER_WATER_SUPPLY;
             total_energy = energy_hot + energy_cold;
             co2 = total_energy * CO2_PER_KWH;
             trees = co2 / CO2_ABSORBED_PER_TREE_PER_YEAR
         in Some \<lparr>hot_water_saving_liters = hot_liters,
                  cold_water_supply_saving_cubic_meters = cold_cubic_meters,
                  energy_saved_from_hot_water = energy_hot,
                  energy_saved_from_cold_supply = energy_cold,
                  total_energy_saved_kwh = total_energy,
                  co2_reduced_kg = co2,
                  equivalent_trees = trees\<rparr>)
      else None)"

section \<open>The transport footprint (lines 185 to 199)\<close>

text \<open>
  The radio button offers four modes, in this order: car, bus, subway, bicycle or
  walking. \<^verbatim>\<open>emission_factors\<close> is a dict with exactly these four keys.
\<close>

datatype transport_mode = Car | Bus | Subway | BikeWalk

fun emission_factors :: "transport_mode \<Rightarrow> real" where
  "emission_factors Car = 0.170"
| "emission_factors Bus = 0.093"
| "emission_factors Subway = 0.091"
| "emission_factors BikeWalk = 0.056"

definition daily_co2 :: "transport_mode \<Rightarrow> real \<Rightarrow> real" where
  "daily_co2 m distance = emission_factors m * distance"

definition annual_co2 :: "transport_mode \<Rightarrow> real \<Rightarrow> real" where
  "annual_co2 m distance = daily_co2 m distance * 365"

text \<open>
  The two figures are shown with \<^verbatim>\<open>st.metric\<close> through the f-strings
  \<^verbatim>\<open>{daily_co2:,.1f}g CO2e\<close> and \<^verbatim>\<open>{annual_co2:,.1f}kg CO2e\<close> (with a subscript two,
  U+2082, in the source). An f-string of one number is kept as the number, its format
  specification and the text after it; the digits themselves are not computed.
\<close>

record shown =
  shown_value :: real
  format_spec :: string
  unit_text :: string

definition co2e_text :: string where
  "co2e_text = [CHR 0x20, CHR 0x43, CHR 0x4F, CHR 0xE2, CHR 0x82, CHR 0x82, CHR 0x65]"

definition daily_co2_metric :: "transport_mode \<Rightarrow> real \<Rightarrow> shown" where
  "daily_co2_metric m distance =
     \<lparr>shown_value = daily_co2 m distance, format_spec = '',.1f'', unit_text = ''g'' @ co2e_text\<rparr>"

definition annual_co2_metric :: "transport_mode \<Rightarrow> real \<Rightarrow> shown" where
  "annual_co2_metric m distance =
     \<lparr>shown_value = annual_co2 m distance, format_spec = '',.1f'', unit_text = ''kg'' @ co2e_text\<rparr>"

section \<open>The waste handling method (lines 201 to 208)\<close>

text \<open>The second radio button: full separate collection, or partly mixed collection.\<close>

datatype waste_method = FullSeparation | PartialMixed

fun emission :: "waste_method \<Rightarrow> real" where
  "emission FullSeparation = 203"
| "emission PartialMixed = 193"

section \<open>The annual total and its comparison (lines 213 to 231)\<close>

definition World_AVERAGE_CO2_KG :: real where
  "World_AVERAGE_CO2_KG = 4800"

definition water_co2_total :: "int \<Rightarrow> real" where
  "water_co2_total user_daily_water_usage = real_of_int user_daily_water_usage * 0.01"

record footprint =
  total_annual_co2_kg :: real
  delta_kg :: real

text \<open>Lines 223 to 231, as a function of the four summands they read and of the toggle.\<close>

definition aggregate :: "real \<Rightarrow> real \<Rightarrow> real \<Rightarrow> real \<Rightarrow> bool \<Rightarrow> footprint" where
  "aggregate total_co2_electricity total_co2_water total_co2_transport tresh_co2 add_fixed_emission =
     (let fixed_emission_value = (if add_fixed_emission then 1300 else 0);
          total =
            total_co2_electricity + total_co2_water + total_co2_transport + tresh_co2
              + fixed_emission_value
      in \<lparr>total_annual_co2_kg = total, delta_kg = World_AVERAGE_CO2_KG - total\<rparr>)"

section \<open>One run of the script, up to the total\<close>

text \<open>
  Streamlit runs the script from top to bottom on every interaction, in a fresh
  namespace, with the current values of the widgets. \<^verbatim>\<open>st.stop()\<close> ends the run.
  A button is true only in the run its click starts.

  Lines 217 to 219 ask whether a variable exists: \<^verbatim>\<open>co2_after_kg\<close> exists when the
  analysis ran, \<^verbatim>\<open>co2_reduced_kg\<close> when the water block ran, \<^verbatim>\<open>annual_co2\<close> always.
  The recycling block neither raises nor feeds the total and is left out of the run.
\<close>

record inputs =
  in_start_date :: date
  in_end_date :: date
  in_usage_before :: real
  in_usage_after :: real
  in_analysis_clicked :: bool
  in_user_daily_water_usage :: int
  in_mode :: transport_mode
  in_distance :: real
  in_waste_mode :: waste_method
  in_add_fixed_emission :: bool

datatype script_result = Stopped | Raised py_error | Completed footprint

definition run_script :: "inputs \<Rightarrow> script_result" where
  "run_script i =
     (if date_gt (in_start_date i) (in_end_date i) then Stopped
      else if in_usage_after i > in_usage_before i then Stopped
      else
        (case (if in_analysis_clicked i then
                 (case electricity_analysis (in_start_date i) (in_end_date i)
                         (in_usage_before i) (in_usage_after i) of
                    Inl e \<Rightarrow> Inl e
                  | Inr r \<Rightarrow> Inr (Some r))
               else Inr None) of
           Inl e \<Rightarrow> Raised e
         | Inr electricity \<Rightarrow>
             (let water = water_saving (in_user_daily_water_usage i);
                  total_co2_electricity =
                    (case electricity of Some r \<Rightarrow> co2_after_kg r | None \<Rightarrow> 0);
                  total_co2_water =
                    (case water of
                       Some w \<Rightarrow> water_co2_total (in_user_daily_water_usage i)
                     | None \<Rightarrow> 0);
                  total_co2_transport = annual_co2 (in_mode i) (in_distance i);
                  tresh_co2 = emission (in_waste_mode i)
              in Completed
                   (aggregate total_co2_electricity total_co2_water total_co2_transport
                      tresh_co2 (in_add_fixed_emission i)))))"

text \<open>An example run: the default numbers of the widgets (400 and 300 kWh, 100 litres,
  car, 10 km, full separation, the fixed emission included), the analysis button clicked,
  and the dates 2024-01-01 and 2024-12-31.\<close>

definition default_inputs :: inputs where
  "default_inputs =
     \<lparr>in_start_date = \<lparr>year = 2024, month = 1, day = 1\<rparr>,
      in_end_date = \<lparr>year = 2024, month = 12, day = 31\<rparr>,
      in_usage_before = 400, in_usage_after = 300,
      in_analysis_clicked = True,
      in_user_daily_water_usage = 100,
      in_mode = Car, in_distance = 10,
      in_waste_mode = FullSeparation,
      in_add_fixed_emission = True\<rparr>"

section \<open>The bill: schedule and components\<close>

lemma lookup_low_voltage:
  "BASE_COST_PER_KWH contract_low_voltage = Some [78.3, 147.3, 215.6]"
  by (simp add: BASE_COST_PER_KWH_def)


text \<open>With the default contract type the lookup succeeds and the indices resolve.\<close>

lemma bill_default:
  "calculate_monthly_bill u contract_low_voltage =
     (let e = (if u \<le> 200 then u * 78.3
               else if u \<le> 400 then 200 * 78.3 + (u - 200) * 147.3
               else 200 * 78.3 + 200 * 147.3 + (u - 400) * 215.6);
          f = e * ELECTRICITY_FUND_RATE;
          v = (e + f) * VAT_RATE
      in Inr (0 + e + f + v, e, f, v))"
  by (simp add: calculate_monthly_bill_def lookup_low_voltage TIER_THRESHOLDS_def Let_def)

text \<open>
  C2. For every usage \<open>u \<ge> 0\<close>, the bill of the default contract type is returned and
  its energy charge follows the three bands with thresholds 200 and 400 and rates 78.3,
  147.3 and 215.6: \<open>u \<le> 200\<close> gives \<open>u \<times> 78.3\<close>; \<open>200 < u \<le> 400\<close> gives
  \<open>200 \<times> 78.3 + (u - 200) \<times> 147.3\<close>; \<open>u > 400\<close> gives
  \<open>200 \<times> 78.3 + 200 \<times> 147.3 + (u - 400) \<times> 215.6\<close>. A usage exactly on a threshold is
  priced in the lower band, since both tests are \<open>\<le>\<close>.
\<close>

theorem energy_charge_schedule:
  assumes "0 \<le> u"
  shows "\<exists>b. calculate_monthly_bill u contract_low_voltage = Inr b \<and>
             bill_energy_charge b =
               (if u \<le> 200 then u * 78.3
                else if u \<le> 400 then 200 * 78.3 + (u - 200) * 147.3
                else 200 * 78.3 + 200 * 147.3 + (u - 400) * 215.6)"
  by (simp add: bill_default Let_def bill_energy_charge_def)

theorem energy_charge_schedule_witness:
  "(0::real) \<le> 500 \<and>
   (\<exists>b. calculate_monthly_bill 500 contract_low_voltage = Inr b \<and>
        bill_energy_charge b = 200 * 78.3 + 200 * 147.3 + 100 * 215.6)"
  using energy_charge_schedule [of 500] by simp

text \<open>The two thresholds and a usage inside the middle band, evaluated.\<close>

lemma energy_charge_at_thresholds:
  "map_sum id bill_energy_charge (calculate_monthly_bill 200 contract_low_voltage)
     = Inr (200 * 78.3)"
  "map_sum id bill_energy_charge (calculate_monthly_bill 400 contract_low_voltage)
     = Inr (200 * 78.3 + 200 * 147.3)"
  "map_sum id bill_energy_charge (calculate_monthly_bill 300 contract_low_voltage)
     = Inr (200 * 78.3 + 100 * 147.3)"
  by (simp_all add: bill_default Let_def bill_energy_charge_def)

lemma energy_charge_nonneg:
  "0 \<le> u \<Longrightarrow>
   0 \<le> (if u \<le> 200 then u * 78.3
         else if u \<le> 400 then 200 * 78.3 + (u - 200) * 147.3
         else 200 * 78.3 + 200 * 147.3 + (u - 400) * 215.6 :: real)"
  by auto

lemma energy_charge_pos:
  "0 < u \<Longrightarrow>
   0 < (if u \<le> 200 then u * 78.3
        else if u \<le> 400 then 200 * 78.3 + (u - 200) * 147.3
        else 200 * 78.3 + 200 * 147.3 + (u - 400) * 215.6 :: real)"
  by (auto simp add: add_pos_nonneg)

text \<open>
  C7. For every usage \<open>u \<ge> 0\<close> the bill is returned, and in the returned tuple the
  energy charge is the charge of the three-band schedule at \<open>u\<close>, fund = energy charge
  \<open>\<times>\<close> fund rate, VAT = (energy charge + fund) \<open>\<times>\<close> VAT rate, and total = base fee +
  energy charge + fund + VAT, where the base fee of the source is the constant 0. Every
  component is non-negative, and positive when \<open>u > 0\<close>; at \<open>u = 0\<close> every component is
  zero (the base fee being zero, the total is zero as well).
\<close>

theorem bill_components:
  assumes "0 \<le> u"
  shows "\<exists>total e f v.
           calculate_monthly_bill u contract_low_voltage = Inr (total, e, f, v) \<and>
           e = (if u \<le> 200 then u * 78.3
                else if u \<le> 400 then 200 * 78.3 + (u - 200) * 147.3
                else 200 * 78.3 + 200 * 147.3 + (u - 400) * 215.6) \<and>
           f = e * ELECTRICITY_FUND_RATE \<and>
           v = (e + f) * VAT_RATE \<and>
           total = 0 + e + f + v \<and>
           0 \<le> e \<and> 0 \<le> f \<and> 0 \<le> v \<and> 0 \<le> total \<and>
           (0 < u \<longrightarrow> 0 < e \<and> 0 < f \<and> 0 < v \<and> 0 < total) \<and>
           (u = 0 \<longrightarrow> e = 0 \<and> f = 0 \<and> v = 0 \<and> total = 0)"
proof -
  define e :: real where
    "e = (if u \<le> 200 then u * 78.3
          else if u \<le> 400 then 200 * 78.3 + (u - 200) * 147.3
          else 200 * 78.3 + 200 * 147.3 + (u - 400) * 215.6)"
  define f where "f = e * ELECTRICITY_FUND_RATE"
  define v where "v = (e + f) * VAT_RATE"
  have ret: "calculate_monthly_bill u contract_low_voltage = Inr (0 + e + f + v, e, f, v)"
    by (simp add: bill_default Let_def e_def f_def v_def)
  have e0: "0 \<le> e"
    unfolding e_def using assms by (rule energy_charge_nonneg)
  have f0: "0 \<le> f"
    using e0 by (simp add: f_def ELECTRICITY_FUND_RATE_def)
  have v0: "0 \<le> v"
    using e0 f0 by (simp add: v_def VAT_RATE_def)
  have pos: "0 < u \<longrightarrow> 0 < e \<and> 0 < f \<and> 0 < v \<and> 0 < 0 + e + f + v"
  proof
    assume "0 < u"
    then have e1: "0 < e"
      unfolding e_def by (rule energy_charge_pos)
    then have f1: "0 < f"
      by (simp add: f_def ELECTRICITY_FUND_RATE_def)
    from e1 f1 have v1: "0 < v"
      by (simp add: v_def VAT_RATE_def)
    from e1 f1 v1 show "0 < e \<and> 0 < f \<and> 0 < v \<and> 0 < 0 + e + f + v"
      by simp
  qed
  have zero: "u = 0 \<longrightarrow> e = 0 \<and> f = 0 \<and> v = 0 \<and> 0 + e + f + v = 0"
    by (simp add: e_def f_def v_def)
  show ?thesis
    using ret e0 f0 v0 pos zero e_def f_def v_def by auto
qed

text \<open>At 500 kWh: energy charge 66680, fund 2467.16, VAT 6914.716, total 76061.876, each
  tied to the others as stated; at 0 kWh: all zero.\<close>

theorem bill_components_witness:
  "(0::real) \<le> 500 \<and>
   calculate_monthly_bill 500 contract_low_voltage
     = Inr (76061.876, 66680, 2467.16, 6914.716) \<and>
   (66680 :: real) = 200 * 78.3 + 200 * 147.3 + (500 - 400) * 215.6 \<and>
   2467.16 = 66680 * ELECTRICITY_FUND_RATE \<and>
   6914.716 = (66680 + 2467.16) * VAT_RATE \<and>
   (76061.876 :: real) = 0 + 66680 + 2467.16 + 6914.716 \<and>
   (0::real) \<le> 0 \<and>
   calculate_monthly_bill 0 contract_low_voltage = Inr (0, 0, 0, 0)"
  using bill_components [of 500] bill_components [of 0]
  by (auto simp add: ELECTRICITY_FUND_RATE_def VAT_RATE_def)

text \<open>The bill of 500 kWh, component by component.\<close>

lemma bill_of_500:
  "calculate_monthly_bill 500 contract_low_voltage
     = Inr (76061.876, 66680, 2467.16, 6914.716)"
  by (simp add: bill_default Let_def ELECTRICITY_FUND_RATE_def VAT_RATE_def)

section \<open>The month count\<close>

text \<open>
  C8. For valid dates with \<open>start \<le> end\<close>, \<^verbatim>\<open>count_months\<close> is
  \<open>(end.year - start.year) \<times> 12 + (end.month - start.month) + 1\<close>, it is at least 1, and
  it does not change when the day of either date changes.
\<close>

theorem count_months_inclusive:
  assumes "valid_date s" and "valid_date e" and "date_le s e"
  shows "count_months s e = (year e - year s) * 12 + (month e - month s) + 1 \<and>
         1 \<le> count_months s e \<and>
         count_months (s\<lparr>day := d1\<rparr>) (e\<lparr>day := d2\<rparr>) = count_months s e"
  using assms
  by (auto simp add: count_months_def valid_date_def date_le_def date_gt_def)

theorem count_months_inclusive_witness:
  "valid_date \<lparr>year = 2024, month = 1, day = 15\<rparr> \<and>
   valid_date \<lparr>year = 2024, month = 1, day = 20\<rparr> \<and>
   date_le \<lparr>year = 2024, month = 1, day = 15\<rparr> \<lparr>year = 2024, month = 1, day = 20\<rparr> \<and>
   count_months \<lparr>year = 2024, month = 1, day = 15\<rparr> \<lparr>year = 2024, month = 1, day = 20\<rparr> = 1 \<and>
   valid_date \<lparr>year = 2024, month = 1, day = 1\<rparr> \<and>
   valid_date \<lparr>year = 2024, month = 3, day = 1\<rparr> \<and>
   date_le \<lparr>year = 2024, month = 1, day = 1\<rparr> \<lparr>year = 2024, month = 3, day = 1\<rparr> \<and>
   count_months \<lparr>year = 2024, month = 1, day = 1\<rparr> \<lparr>year = 2024, month = 3, day = 1\<rparr> = 3"
  using count_months_inclusive
          [of "\<lparr>year = 2024, month = 1, day = 15\<rparr>" "\<lparr>year = 2024, month = 1, day = 20\<rparr>"]
        count_months_inclusive
          [of "\<lparr>year = 2024, month = 1, day = 1\<rparr>" "\<lparr>year = 2024, month = 3, day = 1\<rparr>"]
  by (simp add: valid_date_def date_le_def date_gt_def days_in_month_def)

text \<open>Without the order of the dates the count can be zero or negative: the check of
  line 62 is what keeps it positive.\<close>

lemma count_months_reversed:
  "count_months \<lparr>year = 2024, month = 3, day = 1\<rparr> \<lparr>year = 2024, month = 1, day = 1\<rparr> = - 1"
  by (simp add: count_months_def)

section \<open>The annual total as a function\<close>

text \<open>
  C3. For all values of the four summands, the total is their sum plus 1300 when the
  toggle is on and plus 0 when it is off, and the delta is \<open>4800 - total\<close>; with the three
  domain terms 0 and the toggle on, the total is \<open>x + 1300\<close> and the delta
  \<open>4800 - (x + 1300)\<close>.
\<close>

theorem aggregate_total_delta:
  "total_annual_co2_kg (aggregate a w t s True) = a + w + t + s + 1300 \<and>
   total_annual_co2_kg (aggregate a w t s False) = a + w + t + s + 0 \<and>
   delta_kg (aggregate a w t s f) = 4800 - total_annual_co2_kg (aggregate a w t s f) \<and>
   total_annual_co2_kg (aggregate x 0 0 0 True) = x + 1300 \<and>
   delta_kg (aggregate x 0 0 0 True) = 4800 - (x + 1300)"
  by (simp add: aggregate_def Let_def World_AVERAGE_CO2_KG_def)

section \<open>The electricity saving analysis\<close>

text \<open>
  C5. For every usage before \<open>> 0\<close> and usage after \<open>\<le>\<close> usage before, and with
  \<open>m\<close> the month count of the two dates, the analysis returns: saved kWh
  \<open>= (before - after) \<times> m\<close>; saved percent \<open>= (before - after) / before \<times> 100\<close>; saved
  won \<open>= (total bill of before - total bill of after) \<times> m\<close>; CO2 before and after
  \<open>= usage \<times> 409 \<times> m / 1000\<close>.
\<close>

theorem electricity_delta:
  assumes "0 < ub" and "ua \<le> ub"
  shows "\<exists>r bb ba.
           electricity_analysis s e ub ua = Inr r \<and>
           calculate_monthly_bill ub contract_low_voltage = Inr bb \<and>
           calculate_monthly_bill ua contract_low_voltage = Inr ba \<and>
           num_months r = count_months s e \<and>
           total_saved_kwh r = (ub - ua) * real_of_int (count_months s e) \<and>
           saved_percent r = (ub - ua) / ub * 100 \<and>
           total_saved_won r = (bill_total bb - bill_total ba) * real_of_int (count_months s e) \<and>
           co2_before_kg r = ub * 409 * real_of_int (count_months s e) / 1000 \<and>
           co2_after_kg r = ua * 409 * real_of_int (count_months s e) / 1000"
proof -
  obtain bb where bb: "calculate_monthly_bill ub contract_low_voltage = Inr bb"
    by (simp add: bill_default Let_def)
  obtain ba where ba: "calculate_monthly_bill ua contract_low_voltage = Inr ba"
    by (simp add: bill_default Let_def)
  from assms have nz: "ub \<noteq> 0" by simp
  show ?thesis
    using nz
    by (cases bb; cases ba)
       (simp add: electricity_analysis_def bb ba Let_def bill_total_def
          CO2_EMISSION_FACTOR_G_PER_KWH_def)
qed

text \<open>At 400 and 300 kWh over one month: 100 kWh and 25 percent.\<close>

theorem electricity_delta_witness:
  "(0::real) < 400 \<and> (300::real) \<le> 400 \<and>
   map_sum id total_saved_kwh
     (electricity_analysis \<lparr>year = 2024, month = 1, day = 15\<rparr>
        \<lparr>year = 2024, month = 1, day = 20\<rparr> 400 300) = Inr 100 \<and>
   map_sum id saved_percent
     (electricity_analysis \<lparr>year = 2024, month = 1, day = 15\<rparr>
        \<lparr>year = 2024, month = 1, day = 20\<rparr> 400 300) = Inr 25"
  using electricity_delta [of 400 300 "\<lparr>year = 2024, month = 1, day = 15\<rparr>"
          "\<lparr>year = 2024, month = 1, day = 20\<rparr>"]
  by (auto simp add: count_months_def)

lemma electricity_zero_usage_before:
  "electricity_analysis s e 0 ua = Inl ZeroDivisionError"
  by (simp add: electricity_analysis_def Let_def)

lemma electricity_default:
  "electricity_analysis \<lparr>year = 2024, month = 1, day = 1\<rparr>
     \<lparr>year = 2024, month = 12, day = 31\<rparr> 400 300 =
   Inr \<lparr>num_months = 12, total_saved_kwh = 1200, saved_percent = 25,
        total_saved_won = 201630.132, co2_before_kg = 1963.2, co2_after_kg = 1472.4,
        total_co2_saved_kg = 490.8\<rparr>"
  by (simp add: electricity_analysis_def count_months_def bill_default Let_def
        ELECTRICITY_FUND_RATE_def VAT_RATE_def CO2_EMISSION_FACTOR_G_PER_KWH_def)

section \<open>The recycling grade\<close>


lemma grade_labels_distinct:
  "distinct [grade_low, grade_moderate, grade_high, grade_very_high]"
  by (simp add: grade_low_def grade_moderate_def grade_high_def grade_very_high_def)

text \<open>
  C9. For every waste amount \<open>> 0\<close> and recycled amount between 0 and the waste amount,
  the block yields rate \<open>= recycled / waste \<times> 100\<close> and relative rate
  \<open>= rate / 69.8 \<times> 100\<close>, and the grade is the label for low when the relative rate is
  below 50, for moderate from 50 to below 75, for high from 75 to below 100, and for very
  high from 100 on. The four labels are pairwise different.
\<close>

theorem recycling_grade_bands:
  assumes "0 < w" and "0 \<le> r" and "r \<le> w"
  shows "\<exists>res. recycling_evaluation w r = Some res \<and>
           recycling_rate res = r / w * 100 \<and>
           relative_rate res = recycling_rate res / 69.8 * 100 \<and>
           grade res =
             (if relative_rate res < 50 then grade_low
              else if relative_rate res < 75 then grade_moderate
              else if relative_rate res < 100 then grade_high
              else grade_very_high)"
  using assms
  by (simp add: recycling_evaluation_def Let_def get_grade_def NATIONAL_RATE_def)

text \<open>At 1000 and 300: rate 30, relative rate \<open>30 / 69.8 \<times> 100\<close>, which lies between
  42.975 and 42.985, and the label for low.\<close>

theorem recycling_grade_bands_witness:
  "(0::real) < 1000 \<and> (0::real) \<le> 300 \<and> (300::real) \<le> 1000 \<and>
   map_option recycling_rate (recycling_evaluation 1000 300) = Some 30 \<and>
   map_option relative_rate (recycling_evaluation 1000 300) = Some (30 / 69.8 * 100) \<and>
   42.975 < (30 / 69.8 * 100 :: real) \<and> (30 / 69.8 * 100 :: real) < 42.985 \<and>
   map_option grade (recycling_evaluation 1000 300) = Some grade_low"
  using recycling_grade_bands [of 1000 300]
  by auto

section \<open>What the calculators do with inputs out of range\<close>




text \<open>Where the script itself refuses inputs: it stops the run, before any
  computation, when the start date is after the end date or the usage after is above
  the usage before.\<close>

lemma run_script_stops:
  "date_gt (in_start_date i) (in_end_date i) \<Longrightarrow> run_script i = Stopped"
  "in_usage_after i > in_usage_before i \<Longrightarrow> run_script i = Stopped"
  by (simp_all add: run_script_def)

section \<open>The water saving simulator\<close>

lemmas water_constants =
  DEFAULT_PER_CAPITA_WATER_USAGE_def ENERGY_PER_CUBIC_METER_WATER_SUPPLY_def
  ENERGY_TO_HEAT_1L_WATER_def CO2_PER_KWH_def CO2_ABSORBED_PER_TREE_PER_YEAR_def

text \<open>
  C6 gives, for 100 litres a day, an energy of about 890.48 kWh and about 356.19 kg of
  CO2, and for 305 litres a CO2 figure of 0. The block computes 890.4175 kWh and
  356.167 kg at 100 litres: the energy is more than 0.05 away from 890.48, the CO2 more
  than 0.005 away from 356.19. At 305 litres the saving is 0, the block is skipped, and
  there is no CO2 figure at all.
\<close>

theorem water_figures_counterexample:
  "water_saving 100 =
     Some \<lparr>hot_water_saving_liters = 29930,
           cold_water_supply_saving_cubic_meters = 44.895,
           energy_saved_from_hot_water = 867.97,
           energy_saved_from_cold_supply = 22.4475,
           total_energy_saved_kwh = 890.4175,
           co2_reduced_kg = 356.167,
           equivalent_trees = 356.167 / 21\<rparr> \<and>
   \<not> \<bar>890.4175 - 890.48 :: real\<bar> \<le> 0.05 \<and>
   \<not> \<bar>356.167 - 356.19 :: real\<bar> \<le> 0.005 \<and>
   water_saving 305 = None"
  by (simp add: water_saving_def daily_saving_def annual_saving_liters_def water_constants Let_def)

text \<open>
  C6, amended. For every daily usage \<open>d\<close> from 0 to 500, with saving \<open>s = 305 - d\<close> and
  annual litres \<open>s \<times> 365\<close>: if \<open>s > 0\<close>, the hot-water energy is
  \<open>(annual \<times> 0.40) \<times> 0.029\<close>, the cold-supply energy \<open>(annual \<times> 0.60 / 1000) \<times> 0.5\<close>,
  the CO2 \<open>(hot + cold) \<times> 0.4\<close> and the trees \<open>CO2 / 21\<close>; if \<open>s \<le> 0\<close>, no energy,
  CO2 or tree figure is computed. So 305 litres give saving 0 and no figures, and 100
  litres give 890.4175 kWh and 356.167 kg.
\<close>

theorem water_saving_figures:
  assumes "0 \<le> d" and "d \<le> 500"
  shows "daily_saving d = 305 - d \<and>
         annual_saving_liters d = (305 - d) * 365 \<and>
         (0 < 305 - d \<longrightarrow>
            (\<exists>w. water_saving d = Some w \<and>
                 energy_saved_from_hot_water w =
                   (real_of_int (annual_saving_liters d) * 0.40) * 0.029 \<and>
                 energy_saved_from_cold_supply w =
                   ((real_of_int (annual_saving_liters d) * 0.60) / 1000) * 0.5 \<and>
                 total_energy_saved_kwh w =
                   energy_saved_from_hot_water w + energy_saved_from_cold_supply w \<and>
                 co2_reduced_kg w = total_energy_saved_kwh w * 0.4 \<and>
                 equivalent_trees w = co2_reduced_kg w / 21)) \<and>
         (305 - d \<le> 0 \<longrightarrow> water_saving d = None)"
  by (simp add: water_saving_def daily_saving_def annual_saving_liters_def water_constants Let_def
        del: of_int_diff of_int_mult)

theorem water_saving_figures_witness:
  "(0::int) \<le> 100 \<and> (100::int) \<le> 500 \<and> (0::int) < 305 - 100 \<and>
   annual_saving_liters 100 = 74825 \<and>
   map_option total_energy_saved_kwh (water_saving 100) = Some 890.4175 \<and>
   map_option co2_reduced_kg (water_saving 100) = Some 356.167 \<and>
   (0::int) \<le> 305 \<and> (305::int) \<le> 500 \<and> (305::int) - 305 \<le> 0 \<and>
   daily_saving 305 = 0 \<and> water_saving 305 = None"
  using water_saving_figures [of 100] water_saving_figures [of 305]
  by auto

section \<open>The transport footprint\<close>

text \<open>
  C10. For each of the four modes and every distance \<open>\<ge> 0\<close>, the daily figure is the
  factor of the mode (car 0.170, bus 0.093, subway 0.091, bicycle or walking 0.056) times
  the distance, and the annual figure is the daily figure times 365, with no change of
  scale between them; the daily figure is shown with the unit text \<open>g CO2e\<close> and the
  annual one with \<open>kg CO2e\<close>.
\<close>

theorem transport_co2:
  assumes "0 \<le> km"
  shows "daily_co2 m km =
           (case m of Car \<Rightarrow> 0.170 | Bus \<Rightarrow> 0.093 | Subway \<Rightarrow> 0.091 | BikeWalk \<Rightarrow> 0.056) * km \<and>
         annual_co2 m km = daily_co2 m km * 365 \<and>
         shown_value (daily_co2_metric m km) = daily_co2 m km \<and>
         unit_text (daily_co2_metric m km) = ''g'' @ co2e_text \<and>
         shown_value (annual_co2_metric m km) = annual_co2 m km \<and>
         unit_text (annual_co2_metric m km) = ''kg'' @ co2e_text"
  by (cases m)
     (simp_all add: daily_co2_def annual_co2_def daily_co2_metric_def annual_co2_metric_def)

theorem transport_co2_witness:
  "(0::real) \<le> 10 \<and> daily_co2 Car 10 = 1.7 \<and> annual_co2 Car 10 = 620.5 \<and>
   daily_co2_metric Car 10 =
     \<lparr>shown_value = 1.7, format_spec = '',.1f'', unit_text = ''g'' @ co2e_text\<rparr> \<and>
   annual_co2_metric Car 10 =
     \<lparr>shown_value = 620.5, format_spec = '',.1f'', unit_text = ''kg'' @ co2e_text\<rparr>"
  using transport_co2 [of 10 Car]
  by (simp add: daily_co2_metric_def annual_co2_metric_def)

section \<open>The total of a run\<close>

text \<open>
  C1 says that the water term of the total is the CO2 figure of the water simulator.
  In the example run the analysis gives 1472.4 kg after saving, the water simulator
  356.167 kg, the transport 620.5 kg, the waste 203 kg, and the fixed emission is
  included; the total of the run is 3596.9, not the sum of these figures (3952.067).
\<close>

theorem total_water_term_counterexample:
  "run_script default_inputs =
     Completed \<lparr>total_annual_co2_kg = 3596.9, delta_kg = 1203.1\<rparr> \<and>
   map_sum id co2_after_kg
     (electricity_analysis (in_start_date default_inputs) (in_end_date default_inputs)
        (in_usage_before default_inputs) (in_usage_after default_inputs)) = Inr 1472.4 \<and>
   map_option co2_reduced_kg (water_saving (in_user_daily_water_usage default_inputs))
     = Some 356.167 \<and>
   annual_co2 (in_mode default_inputs) (in_distance default_inputs) = 620.5 \<and>
   emission (in_waste_mode default_inputs) = 203 \<and>
   in_add_fixed_emission default_inputs \<and>
   (3596.9 :: real) \<noteq> 1472.4 + 356.167 + 620.5 + 203 + 1300"
  by (simp add: run_script_def default_inputs_def date_gt_def electricity_default
        water_saving_def daily_saving_def annual_saving_liters_def water_constants
        water_co2_total_def annual_co2_def daily_co2_def aggregate_def
        World_AVERAGE_CO2_KG_def Let_def)

text \<open>
  C1, amended. In every run that is not stopped, in which the analysis button was
  clicked with a usage before \<open>> 0\<close> and the daily water usage is below 305 litres (so
  that the electricity and the water figures exist), the run completes and its total is
  the CO2 after saving of the analysis, plus the daily litres times 0.01, plus the annual
  transport figure, plus the waste figure, plus 1300 when the toggle is on; the delta is
  4800 minus the total. The water term is the daily litres times 0.01, not the CO2
  figure of the water simulator.
\<close>

theorem total_of_run:
  assumes "date_le (in_start_date i) (in_end_date i)"
    and "0 < in_usage_before i" and "in_usage_after i \<le> in_usage_before i"
    and "in_analysis_clicked i"
    and "in_user_daily_water_usage i < 305"
  shows "\<exists>r w fp.
           electricity_analysis (in_start_date i) (in_end_date i)
             (in_usage_before i) (in_usage_after i) = Inr r \<and>
           water_saving (in_user_daily_water_usage i) = Some w \<and>
           run_script i = Completed fp \<and>
           total_annual_co2_kg fp =
             co2_after_kg r + real_of_int (in_user_daily_water_usage i) * 0.01
               + annual_co2 (in_mode i) (in_distance i) + emission (in_waste_mode i)
               + (if in_add_fixed_emission i then 1300 else 0) \<and>
           delta_kg fp = 4800 - total_annual_co2_kg fp"
proof -
  obtain bb where bb: "calculate_monthly_bill (in_usage_before i) contract_low_voltage = Inr bb"
    by (simp add: bill_default Let_def)
  obtain ba where ba: "calculate_monthly_bill (in_usage_after i) contract_low_voltage = Inr ba"
    by (simp add: bill_default Let_def)
  from assms(2) have nz: "in_usage_before i \<noteq> 0" by simp
  obtain r where r: "electricity_analysis (in_start_date i) (in_end_date i)
             (in_usage_before i) (in_usage_after i) = Inr r"
    using nz by (cases bb; cases ba) (simp add: electricity_analysis_def bb ba Let_def)
  obtain w where w: "water_saving (in_user_daily_water_usage i) = Some w"
    using assms(5)
    by (simp add: water_saving_def daily_saving_def DEFAULT_PER_CAPITA_WATER_USAGE_def Let_def)
  have run: "run_script i =
      Completed (aggregate (co2_after_kg r) (water_co2_total (in_user_daily_water_usage i))
        (annual_co2 (in_mode i) (in_distance i)) (emission (in_waste_mode i))
        (in_add_fixed_emission i))"
    using assms(1,3,4) by (simp add: run_script_def date_le_def r w Let_def)
  show ?thesis
    by (simp add: r w run aggregate_def Let_def water_co2_total_def World_AVERAGE_CO2_KG_def)
qed

theorem total_of_run_witness:
  "date_le (in_start_date default_inputs) (in_end_date default_inputs) \<and>
   0 < in_usage_before default_inputs \<and>
   in_usage_after default_inputs \<le> in_usage_before default_inputs \<and>
   in_analysis_clicked default_inputs \<and>
   in_user_daily_water_usage default_inputs < 305 \<and>
   run_script default_inputs =
     Completed \<lparr>total_annual_co2_kg = 1472.4 + 100 * 0.01 + 620.5 + 203 + 1300,
                delta_kg = 4800 - (1472.4 + 100 * 0.01 + 620.5 + 203 + 1300)\<rparr>"
proof -
  have h: "date_le (in_start_date default_inputs) (in_end_date default_inputs)"
    "0 < in_usage_before default_inputs"
    "in_usage_after default_inputs \<le> in_usage_before default_inputs"
    "in_analysis_clicked default_inputs"
    "in_user_daily_water_usage default_inputs < 305"
    by (simp_all add: default_inputs_def date_le_def date_gt_def)
  from total_of_run [OF h] obtain r w fp where
    r: "electricity_analysis (in_start_date default_inputs) (in_end_date default_inputs)
             (in_usage_before default_inputs) (in_usage_after default_inputs) = Inr r"
    and fp: "run_script default_inputs = Completed fp"
    and tot: "total_annual_co2_kg fp =
             co2_after_kg r + real_of_int (in_user_daily_water_usage default_inputs) * 0.01
               + annual_co2 (in_mode default_inputs) (in_distance default_inputs)
               + emission (in_waste_mode default_inputs)
               + (if in_add_fixed_emission default_inputs then 1300 else 0)"
    and del: "delta_kg fp = 4800 - total_annual_co2_kg fp"
    by blast
  have r_val: "co2_after_kg r = 1472.4"
    using r by (auto simp add: default_inputs_def electricity_default)
  have "fp = \<lparr>total_annual_co2_kg = 1472.4 + 100 * 0.01 + 620.5 + 203 + 1300,
                delta_kg = 4800 - (1472.4 + 100 * 0.01 + 620.5 + 203 + 1300)\<rparr>"
    using tot del r_val
    by (cases fp) (simp add: default_inputs_def annual_co2_def daily_co2_def)
  with h fp show ?thesis by simp
qed

text \<open>When the daily usage is 305 litres or more the water block is skipped and the
  water term of the total is 0; when the analysis button was not clicked the electricity
  term is 0.\<close>

lemma total_without_water_and_electricity:
  "run_script (default_inputs\<lparr>in_analysis_clicked := False, in_user_daily_water_usage := 400\<rparr>)
     = Completed \<lparr>total_annual_co2_kg = 0 + 0 + 620.5 + 203 + 1300,
                  delta_kg = 4800 - (0 + 0 + 620.5 + 203 + 1300)\<rparr>"
  by (simp add: run_script_def default_inputs_def date_gt_def
        water_saving_def daily_saving_def DEFAULT_PER_CAPITA_WATER_USAGE_def
        annual_co2_def daily_co2_def aggregate_def World_AVERAGE_CO2_KG_def Let_def)

end
